theory Spec2Isabelle
  imports Main
begin

section \<open>Data model of the cache controller (sw.js)\<close>

text \<open>
  The service worker reacts to the events install, activate, fetch, sync, push and
  message. Each listener is embedded as a function from the worker's configuration,
  the environment (what the network and the storage backend answer) and the cache
  storage before the event, to an outcome: what the listener hands to the host, the
  cache storage afterwards, and the platform calls it made, in the order it made them.
\<close>

datatype error = TypeError string | DOMException string

text \<open>The settled state of a promise.\<close>

datatype 'a promise = Resolved 'a | Rejected error

text \<open>\<open>Response.type\<close> of the Fetch API.\<close>

datatype response_type = Basic | Cors | Default | Error | Opaque | OpaqueRedirect

text \<open>
  A response: its status, its type, the field values of its \<open>Vary\<close> header (which the
  Cache API reads before it stores a response) and its body.
\<close>

record response =
  status :: nat
  rtype :: response_type
  vary :: "string list"
  body :: string

text \<open>
  A parsed URL, as \<open>new URL(request.url)\<close> yields it: only the parts the worker reads.
  \<open>href\<close> is the URL serialised without its fragment: the network is asked for it, and
  the cache compares requests by it.
\<close>

record url =
  protocol :: string
  origin :: string
  href :: string

text \<open>
  \<open>rmethod\<close> is \<open>request.method\<close>; \<open>accept\<close> is \<open>request.headers.get('accept')\<close>, where
  \<open>None\<close> is the null of a missing header.
\<close>

record request =
  rmethod :: string
  url :: url
  destination :: string
  accept :: "string option"

text \<open>
  One cache namespace holds entries in insertion order; the cache storage holds the
  namespaces in creation order, which is the order \<open>caches.keys()\<close> lists them in and
  \<open>caches.match\<close> searches them in. Only GET requests are stored, so an entry is keyed
  by the URL.
\<close>

type_synonym cache = "(string \<times> response) list"
type_synonym cache_storage = "(string \<times> cache) list"

text \<open>
  What \<open>fetch\<close> settles to: it rejects on a network failure and otherwise resolves with
  a response object (so the guard \<open>!networkResponse\<close> of the asset path is never true).
\<close>

datatype net_result = NetRejected error | NetResolved response

text \<open>
  The environment of one event: the network's answer for each URL, and whether the
  storage backend refuses a write (a quota error, for instance).
\<close>

record env =
  net :: "string \<Rightarrow> net_result"
  put_error :: "error option"

text \<open>
  The worker's configuration: the name of the current cache namespace
  (the constant \<open>CACHE_NAME\<close>) and \<open>self.location.origin\<close>.
\<close>

record worker =
  cache_name :: string
  location_origin :: string

datatype log_arg = LStr string | LErr error

record notification_options =
  nbody :: string
  icon :: string
  badge :: string
  vibrate :: "nat list"
  dateOfArrival :: nat

text \<open>The platform calls a listener makes.\<close>

datatype effect =
    ConsoleLog "log_arg list"
  | CachesOpen string
  | CachesKeys
  | CachesDelete string
  | CachesMatch string
  | CacheAddAll string "string list"
  | CachePut string string
  | NetFetch string
  | SkipWaiting
  | ClientsClaim
  | ShowNotification string notification_options

record 'a outcome =
  result :: 'a
  storage :: cache_storage
  effects :: "effect list"

text \<open>
  What the fetch listener does with the event: it returns without calling
  \<open>respondWith\<close> (the request goes to the network as if there were no worker), or it
  calls \<open>respondWith\<close> with a promise; \<open>Resolved None\<close> is a promise resolved with
  \<open>undefined\<close>.
\<close>

datatype fetch_action = PassThrough | RespondWith "response option promise"

definition CACHE_NAME :: string where
  "CACHE_NAME = ''portfolio-v2''"

definition urlsToCache :: "string list" where
  "urlsToCache =
     [''/'', ''/index.html'', ''/critical.css'', ''/styles.min.css'', ''/responsive.css'',
      ''/navigation.js'', ''/performance.js'', ''/Profile.png'', ''/favicon.ico'']"

text \<open>The worker of the source, served from origin \<open>org\<close>.\<close>

definition sw :: "string \<Rightarrow> worker" where
  "sw org = \<lparr>cache_name = CACHE_NAME, location_origin = org\<rparr>"

section \<open>The platform's cache storage\<close>

text \<open>
  The calls that read, open, list or delete are taken never to reject; a write may be
  refused, as the environment says.

  A root-relative path given to the Cache API is resolved against the worker's origin.
\<close>

definition resolve :: "worker \<Rightarrow> string \<Rightarrow> string" where
  "resolve w path = location_origin w @ path"

text \<open>\<open>caches.match\<close>: the first namespace, in creation order, that has the key.\<close>

fun caches_match :: "cache_storage \<Rightarrow> string \<Rightarrow> response option" where
  "caches_match [] k = None"
| "caches_match ((n, c) # cs) k =
     (case map_of c k of Some r \<Rightarrow> Some r | None \<Rightarrow> caches_match cs k)"

text \<open>\<open>caches.open\<close> creates the namespace when there is none of that name.\<close>

definition caches_open :: "cache_storage \<Rightarrow> string \<Rightarrow> cache_storage" where
  "caches_open cs n = (if n \<in> set (map fst cs) then cs else cs @ [(n, [])])"

definition caches_keys :: "cache_storage \<Rightarrow> string list" where
  "caches_keys cs = map fst cs"

definition caches_delete :: "cache_storage \<Rightarrow> string \<Rightarrow> cache_storage" where
  "caches_delete cs n = filter (\<lambda>(m, c). m \<noteq> n) cs"

text \<open>\<open>cache.put\<close> drops the entry the request matches and adds the new one.\<close>

definition entry_put :: "cache \<Rightarrow> string \<Rightarrow> response \<Rightarrow> cache" where
  "entry_put c k r = filter (\<lambda>(k', r'). k' \<noteq> k) c @ [(k, r)]"

definition cache_put :: "cache_storage \<Rightarrow> string \<Rightarrow> string \<Rightarrow> response \<Rightarrow> cache_storage" where
  "cache_put cs n k r = map (\<lambda>(m, c). if m = n then (m, entry_put c k r) else (m, c)) cs"

text \<open>\<open>Response.ok\<close>.\<close>

definition ok :: "response \<Rightarrow> bool" where
  "ok r = (200 \<le> status r \<and> status r \<le> 299)"

text \<open>
  The responses the Cache API refuses to store, in \<open>put\<close> and in \<open>addAll\<close> alike: a
  partial response (status 206) and a response whose \<open>Vary\<close> header has the value \<open>*\<close>.
\<close>

definition unstorable :: "response \<Rightarrow> bool" where
  "unstorable r = (status r = 206 \<or> ''*'' \<in> set (vary r))"

text \<open>
  \<open>cache.put\<close> as a promise: rejected for a response the Cache API refuses and when the
  backend refuses the write.
\<close>

definition cache_put_result ::
  "env \<Rightarrow> cache_storage \<Rightarrow> string \<Rightarrow> string \<Rightarrow> response \<Rightarrow> error + cache_storage" where
  "cache_put_result en cs n k r =
     (if unstorable r then Inl (TypeError ''Response cannot be stored'')
      else (case put_error en of
              Some e \<Rightarrow> Inl e
            | None \<Rightarrow> Inr (cache_put cs n k r)))"

text \<open>
  \<open>cache.addAll\<close> fetches every URL and rejects, storing nothing, when a fetch is
  rejected, when a response is of type error, is not \<open>ok\<close> or is one the Cache API
  refuses to store, or when the backend refuses the write; otherwise it stores every
  response.
\<close>

fun fetch_all :: "(string \<Rightarrow> net_result) \<Rightarrow> string list \<Rightarrow> error + (string \<times> response) list" where
  "fetch_all nw [] = Inr []"
| "fetch_all nw (k # ks) =
     (case nw k of
        NetRejected e \<Rightarrow> Inl e
      | NetResolved r \<Rightarrow>
          if rtype r = Error \<or> \<not> ok r \<or> unstorable r then Inl (TypeError ''Request failed'')
          else (case fetch_all nw ks of
                  Inl e \<Rightarrow> Inl e
                | Inr rs \<Rightarrow> Inr ((k, r) # rs)))"

fun put_all :: "cache_storage \<Rightarrow> string \<Rightarrow> (string \<times> response) list \<Rightarrow> cache_storage" where
  "put_all cs n [] = cs"
| "put_all cs n ((k, r) # rs) = put_all (cache_put cs n k r) n rs"

definition cache_addAll ::
  "env \<Rightarrow> cache_storage \<Rightarrow> string \<Rightarrow> string list \<Rightarrow> error + cache_storage" where
  "cache_addAll en cs n ks =
     (case fetch_all (net en) ks of
        Inl e \<Rightarrow> Inl e
      | Inr rs \<Rightarrow>
          (case put_error en of
             Some e \<Rightarrow> Inl e
           | None \<Rightarrow> Inr (put_all cs n rs)))"

section \<open>The listeners\<close>

subsection \<open>install\<close>

text \<open>
  \<open>caches.open(CACHE_NAME).then(cache => cache.addAll(urlsToCache)).catch(log)\<close> under
  \<open>waitUntil\<close>, and \<open>skipWaiting()\<close> called before any of the callbacks runs. The
  \<open>catch\<close> turns a rejection into a logged line and a resolved promise.
\<close>

definition install_listener :: "worker \<Rightarrow> env \<Rightarrow> cache_storage \<Rightarrow> unit promise outcome" where
  "install_listener w en cs =
     (let cs1 = caches_open cs (cache_name w);
          begun = [CachesOpen (cache_name w), SkipWaiting, ConsoleLog [LStr ''Opened cache''],
                   CacheAddAll (cache_name w) urlsToCache]
      in case cache_addAll en cs1 (cache_name w) (map (resolve w) urlsToCache) of
           Inr cs2 \<Rightarrow> \<lparr>result = Resolved (), storage = cs2, effects = begun\<rparr>
         | Inl e \<Rightarrow>
             \<lparr>result = Resolved (), storage = cs1,
              effects = begun @ [ConsoleLog [LStr ''Cache install failed:'', LErr e]]\<rparr>)"

subsection \<open>activate\<close>

text \<open>
  The callback mapped over \<open>cacheNames\<close>: a name other than the current one is logged
  and deleted, the current one is left alone.
\<close>

fun delete_stale :: "string \<Rightarrow> string list \<Rightarrow> cache_storage \<Rightarrow> cache_storage \<times> effect list" where
  "delete_stale cn [] cs = (cs, [])"
| "delete_stale cn (cacheName # ns) cs =
     (if cacheName \<noteq> cn
      then (let (cs', t) = delete_stale cn ns (caches_delete cs cacheName)
            in (cs', ConsoleLog [LStr ''Deleting old cache:'', LStr cacheName]
                       # CachesDelete cacheName # t))
      else delete_stale cn ns cs)"

definition activate_listener :: "worker \<Rightarrow> cache_storage \<Rightarrow> unit promise outcome" where
  "activate_listener w cs =
     (let (cs', t) = delete_stale (cache_name w) (caches_keys cs) cs
      in \<lparr>result = Resolved (), storage = cs', effects = CachesKeys # ClientsClaim # t\<rparr>)"

subsection \<open>fetch\<close>

text \<open>\<open>String.prototype.includes\<close>.\<close>

fun str_includes :: "string \<Rightarrow> string \<Rightarrow> bool" where
  "str_includes [] t = (t = [])"
| "str_includes (c # s) t = (take (length t) (c # s) = t \<or> str_includes s t)"

definition isHttp :: "request \<Rightarrow> bool" where
  "isHttp req = (protocol (url req) = ''http:'' \<or> protocol (url req) = ''https:'')"

definition isHtml :: "request \<Rightarrow> bool" where
  "isHtml req =
     (let acc = (case accept req of Some a \<Rightarrow> a | None \<Rightarrow> [])
      in destination req = ''document'' \<or> str_includes acc ''text/html'')"

text \<open>
  \<open>caches.open(CACHE_NAME).then(cache => { cache.put(request, responseToCache).catch(() => {}) })\<close>:
  the write both paths share. A refused write is swallowed; the namespace has been
  opened by then.
\<close>

definition cache_write ::
  "worker \<Rightarrow> env \<Rightarrow> cache_storage \<Rightarrow> string \<Rightarrow> response \<Rightarrow> cache_storage \<times> effect list" where
  "cache_write w en cs k r =
     (let cs1 = caches_open cs (cache_name w)
      in ((case cache_put_result en cs1 (cache_name w) k r of
             Inr cs2 \<Rightarrow> cs2
           | Inl e \<Rightarrow> cs1),
          [CachesOpen (cache_name w), CachePut (cache_name w) k]))"

text \<open>The document path: network first, the cache when the network fails.\<close>

definition network_first :: "worker \<Rightarrow> env \<Rightarrow> cache_storage \<Rightarrow> request \<Rightarrow> fetch_action outcome" where
  "network_first w en cs req =
     (let k = href (url req) in
      case net en k of
        NetResolved networkResponse \<Rightarrow>
          if origin (url req) = location_origin w \<and> status networkResponse = 200
          then (let (cs', t) = cache_write w en cs k networkResponse
                in \<lparr>result = RespondWith (Resolved (Some networkResponse)), storage = cs',
                    effects = NetFetch k # t\<rparr>)
          else \<lparr>result = RespondWith (Resolved (Some networkResponse)), storage = cs,
                effects = [NetFetch k]\<rparr>
      | NetRejected e \<Rightarrow>
          (case caches_match cs k of
             Some r \<Rightarrow>
               \<lparr>result = RespondWith (Resolved (Some r)), storage = cs,
                effects = [NetFetch k, CachesMatch k]\<rparr>
           | None \<Rightarrow>
               \<lparr>result = RespondWith (Resolved (caches_match cs (resolve w ''/index.html''))),
                storage = cs,
                effects = [NetFetch k, CachesMatch k, CachesMatch (resolve w ''/index.html'')]\<rparr>))"

text \<open>The asset path: the cache first, the network on a miss.\<close>

definition cache_first :: "worker \<Rightarrow> env \<Rightarrow> cache_storage \<Rightarrow> request \<Rightarrow> fetch_action outcome" where
  "cache_first w en cs req =
     (let k = href (url req) in
      case caches_match cs k of
        Some cacheResponse \<Rightarrow>
          \<lparr>result = RespondWith (Resolved (Some cacheResponse)), storage = cs,
           effects = [CachesMatch k]\<rparr>
      | None \<Rightarrow>
          (case net en k of
             NetResolved networkResponse \<Rightarrow>
               if status networkResponse \<noteq> 200 \<or> rtype networkResponse \<noteq> Basic
               then \<lparr>result = RespondWith (Resolved (Some networkResponse)), storage = cs,
                     effects = [CachesMatch k, NetFetch k]\<rparr>
               else if origin (url req) = location_origin w
               then (let (cs', t) = cache_write w en cs k networkResponse
                     in \<lparr>result = RespondWith (Resolved (Some networkResponse)), storage = cs',
                         effects = [CachesMatch k, NetFetch k] @ t\<rparr>)
               else \<lparr>result = RespondWith (Resolved (Some networkResponse)), storage = cs,
                     effects = [CachesMatch k, NetFetch k]\<rparr>
           | NetRejected e \<Rightarrow>
               \<lparr>result = RespondWith (Resolved (caches_match cs (resolve w ''/index.html''))),
                storage = cs,
                effects = [CachesMatch k, NetFetch k, CachesMatch (resolve w ''/index.html'')]\<rparr>))"

definition fetch_listener :: "worker \<Rightarrow> env \<Rightarrow> cache_storage \<Rightarrow> request \<Rightarrow> fetch_action outcome" where
  "fetch_listener w en cs req =
     (if rmethod req \<noteq> ''GET'' then \<lparr>result = PassThrough, storage = cs, effects = []\<rparr>
      else if \<not> isHttp req then \<lparr>result = PassThrough, storage = cs, effects = []\<rparr>
      else if isHtml req then network_first w en cs req
      else cache_first w en cs req)"



subsection \<open>sync, push, message\<close>

definition doBackgroundSync :: "unit promise \<times> effect list" where
  "doBackgroundSync = (Resolved (), [ConsoleLog [LStr ''Background sync triggered'']])"

text \<open>The result is the promise given to \<open>waitUntil\<close>, if the listener calls it.\<close>

definition sync_listener :: "string \<Rightarrow> cache_storage \<Rightarrow> unit promise option outcome" where
  "sync_listener tag cs =
     (if tag = ''backgroundSync''
      then (let (p, t) = doBackgroundSync in \<lparr>result = Some p, storage = cs, effects = t\<rparr>)
      else \<lparr>result = None, storage = cs, effects = []\<rparr>)"

text \<open>
  \<open>dat\<close> is the text of the push payload (\<open>None\<close> when \<open>event.data\<close> is null), \<open>now\<close> is
  \<open>Date.now()\<close>, and \<open>shown\<close> is what \<open>showNotification\<close> settles to.
\<close>

definition push_listener ::
  "string option \<Rightarrow> nat \<Rightarrow> unit promise \<Rightarrow> cache_storage \<Rightarrow> unit promise outcome" where
  "push_listener dat now shown cs =
     (let options = \<lparr>nbody = (case dat of Some t \<Rightarrow> t | None \<Rightarrow> ''New notification''),
                     icon = ''/favicon.ico'', badge = ''/favicon.ico'',
                     vibrate = [100, 50, 100], dateOfArrival = now\<rparr>
      in \<lparr>result = shown, storage = cs,
          effects = [ShowNotification ''Portfolio Update'' options]\<rparr>)"

text \<open>
  The data of a message event is any value the structured clone carries. An object,
  whatever its class, is the list of its properties; a number is read for its
  truthiness alone.
\<close>

datatype js_value =
    Undefined
  | Null
  | Bool bool
  | Number int
  | NaN
  | Str string
  | Object "(string \<times> js_value) list"

text \<open>\<open>ToBoolean\<close>.\<close>

fun truthy :: "js_value \<Rightarrow> bool" where
  "truthy Undefined = False"
| "truthy Null = False"
| "truthy (Bool b) = b"
| "truthy (Number n) = (n \<noteq> 0)"
| "truthy NaN = False"
| "truthy (Str s) = (s \<noteq> [])"
| "truthy (Object ps) = True"

text \<open>
  Reading the property \<open>type\<close> of a value: a TypeError on \<open>undefined\<close> and \<open>null\<close>,
  \<open>undefined\<close> on the other primitives, the property's value on an object.
\<close>

fun get_type :: "js_value \<Rightarrow> error + js_value" where
  "get_type Undefined = Inl (TypeError ''Cannot read properties of undefined'')"
| "get_type Null = Inl (TypeError ''Cannot read properties of null'')"
| "get_type (Object ps) = Inr (case map_of ps ''type'' of Some v \<Rightarrow> v | None \<Rightarrow> Undefined)"
| "get_type v = Inr Undefined"

text \<open>The result is \<open>Inl\<close> when the listener throws.\<close>

definition message_listener :: "js_value \<Rightarrow> cache_storage \<Rightarrow> (error + unit) outcome" where
  "message_listener dat cs =
     (if truthy dat
      then (case get_type dat of
              Inl e \<Rightarrow> \<lparr>result = Inl e, storage = cs, effects = []\<rparr>
            | Inr ty \<Rightarrow>
                if ty = Str ''SKIP_WAITING''
                then \<lparr>result = Inr (), storage = cs, effects = [SkipWaiting]\<rparr>
                else \<lparr>result = Inr (), storage = cs, effects = []\<rparr>)
      else \<lparr>result = Inr (), storage = cs, effects = []\<rparr>)"

text \<open>The calls that read or write the cache storage, and the calls to the network.\<close>

fun is_cache_call :: "effect \<Rightarrow> bool" where
  "is_cache_call (CachesOpen n) = True"
| "is_cache_call CachesKeys = True"
| "is_cache_call (CachesDelete n) = True"
| "is_cache_call (CachesMatch k) = True"
| "is_cache_call (CacheAddAll n ks) = True"
| "is_cache_call (CachePut n k) = True"
| "is_cache_call e = False"

fun is_cache_write :: "effect \<Rightarrow> bool" where
  "is_cache_write (CachesOpen n) = True"
| "is_cache_write (CachesDelete n) = True"
| "is_cache_write (CacheAddAll n ks) = True"
| "is_cache_write (CachePut n k) = True"
| "is_cache_write e = False"

fun is_net_call :: "effect \<Rightarrow> bool" where
  "is_net_call (NetFetch k) = True"
| "is_net_call e = False"

section \<open>Example inputs\<close>

text \<open>A site, a network that serves every URL, a network that is down, and some requests.\<close>

definition site :: string where
  "site = ''https://portfolio.example''"

definition served :: "string \<Rightarrow> response" where
  "served k = \<lparr>status = 200, rtype = Basic, vary = [], body = ''fresh:'' @ k\<rparr>"

definition stored :: "string \<Rightarrow> response" where
  "stored k = \<lparr>status = 200, rtype = Basic, vary = [], body = ''cached:'' @ k\<rparr>"

definition online :: env where
  "online = \<lparr>net = (\<lambda>k. NetResolved (served k)), put_error = None\<rparr>"

definition offline :: env where
  "offline = \<lparr>net = (\<lambda>k. NetRejected (TypeError ''Failed to fetch'')), put_error = None\<rparr>"

text \<open>A network on which one manifest asset is unreachable.\<close>

definition flaky :: env where
  "flaky = \<lparr>net = (\<lambda>k. if k = site @ ''/Profile.png''
                          then NetRejected (TypeError ''Failed to fetch'')
                          else NetResolved (served k)),
            put_error = None\<rparr>"



text \<open>A network that answers one manifest asset with a partial response.\<close>

definition partial_content :: env where
  "partial_content = \<lparr>net = (\<lambda>k. if k = site @ ''/Profile.png''
                                    then NetResolved \<lparr>status = 206, rtype = Basic, vary = [], body = []\<rparr>
                                    else NetResolved (served k)),
              put_error = None\<rparr>"

definition get_request :: "string \<Rightarrow> string \<Rightarrow> request" where
  "get_request dest path =
     \<lparr>rmethod = ''GET'',
      url = \<lparr>protocol = ''https:'', origin = site, href = site @ path\<rparr>,
      destination = dest, accept = None\<rparr>"

definition styles_request :: request where
  "styles_request = get_request ''style'' ''/styles.min.css''"

definition about_request :: request where
  "about_request = get_request ''document'' ''/about.html''"



definition form_post :: request where
  "form_post =
     \<lparr>rmethod = ''POST'',
      url = \<lparr>protocol = ''https:'', origin = site, href = site @ ''/contact''\<rparr>,
      destination = [], accept = None\<rparr>"

text \<open>A cache storage that holds the stylesheet and the root document.\<close>

definition warm :: cache_storage where
  "warm = [(CACHE_NAME, [(site @ ''/index.html'', stored ''/index.html''),
                         (site @ ''/styles.min.css'', stored ''/styles.min.css'')])]"

text \<open>The successor version of the worker, and the storage the previous one left.\<close>

definition sw_v3 :: worker where
  "sw_v3 = \<lparr>cache_name = ''portfolio-v3'', location_origin = site\<rparr>"

definition v2_storage :: cache_storage where
  "v2_storage = [(''portfolio-v2'', [(site @ ''/index.html'', stored ''/index.html'')])]"

section \<open>Cache storage lemmas\<close>

lemma caches_open_names: "set (map fst (caches_open cs n)) = insert n (set (map fst cs))"
  by (auto simp: caches_open_def)

lemma caches_open_distinct: "distinct (map fst cs) \<Longrightarrow> distinct (map fst (caches_open cs n))"
  by (auto simp: caches_open_def)

lemma map_of_caches_open: "\<exists>c. map_of (caches_open cs n) n = Some c"
proof (cases "n \<in> set (map fst cs)")
  case True
  then obtain c where "map_of cs n = Some c"
    by (metis domD dom_map_of_conv_image_fst set_map)
  with True show ?thesis by (simp add: caches_open_def)
next
  case False
  then have "map_of cs n = None" by (simp add: map_of_eq_None_iff)
  with False show ?thesis by (simp add: caches_open_def map_add_def)
qed

lemma cache_put_names: "map fst (cache_put cs n k r) = map fst cs"
  by (induction cs) (auto simp: cache_put_def)

lemma put_all_names: "map fst (put_all cs n rs) = map fst cs"
  by (induction rs arbitrary: cs) (auto simp: cache_put_names)

text \<open>A \<open>put\<close> overwrites the entry of its key and no other.\<close>

lemma map_of_entry_put:
  "map_of (entry_put c k r) k' = (if k' = k then Some r else map_of c k')"
proof -
  have "map_of (filter (\<lambda>(k', r'). k' \<noteq> k) c) k' = (if k' = k then None else map_of c k')"
    by (induction c) auto
  then show ?thesis by (simp add: entry_put_def map_add_def split: option.splits)
qed

lemma map_of_cache_put:
  "map_of (cache_put cs n k r) m
     = (if m = n then map_option (\<lambda>c. entry_put c k r) (map_of cs n) else map_of cs m)"
  by (induction cs) (auto simp: cache_put_def)

lemma map_of_put_all:
  "map_of cs n = Some c \<Longrightarrow>
   \<exists>c'. map_of (put_all cs n rs) n = Some c'
       \<and> (\<forall>k. map_of c' k = (case map_of (rev rs) k of Some r \<Rightarrow> Some r | None \<Rightarrow> map_of c k))"
proof (induction rs arbitrary: cs c)
  case Nil
  then show ?case by simp
next
  case (Cons p rs)
  obtain k r where p: "p = (k, r)" by (cases p)
  have "map_of (cache_put cs n k r) n = Some (entry_put c k r)"
    using Cons.prems by (simp add: map_of_cache_put)
  from Cons.IH [OF this] obtain c' where
    c': "map_of (put_all (cache_put cs n k r) n rs) n = Some c'"
    and look: "\<And>j. map_of c' j = (case map_of (rev rs) j of Some r \<Rightarrow> Some r
                                    | None \<Rightarrow> map_of (entry_put c k r) j)"
    by blast
  have "map_of c' j = (case map_of (rev (p # rs)) j of Some r \<Rightarrow> Some r | None \<Rightarrow> map_of c j)"
    for j
    by (simp add: look p map_of_entry_put map_add_def split: option.splits)
  with c' p show ?case by auto
qed

text \<open>A storage with one namespace of each name keeps exactly that one under the filter.\<close>

lemma filter_single_name:
  "distinct (map fst cs) \<Longrightarrow> map_of cs n = Some c \<Longrightarrow> filter (\<lambda>(m, c). m = n) cs = [(n, c)]"
proof (induction cs)
  case Nil
  then show ?case by simp
next
  case (Cons p cs)
  obtain m d where p: "p = (m, d)" by (cases p)
  show ?case
  proof (cases "m = n")
    case True
    with Cons.prems p have "d = c" and "n \<notin> fst ` set cs" by auto
    then have "filter (\<lambda>(m, c). m = n) cs = []"
      by (auto simp: filter_empty_conv rev_image_eqI)
    with True p \<open>d = c\<close> show ?thesis by simp
  next
    case False
    with Cons p show ?thesis by simp
  qed
qed

subsection \<open>What \<open>addAll\<close> fetches\<close>

lemma fetch_all_keys:
  "fetch_all nw ks = Inr rs
   \<Longrightarrow> map fst rs = ks \<and> (\<forall>(k, r) \<in> set rs. nw k = NetResolved r \<and> ok r)"
  by (induction ks arbitrary: rs) (auto split: net_result.splits if_splits sum.splits)

lemma fetch_all_fails:
  "k \<in> set ks \<Longrightarrow> \<not> (\<exists>r. nw k = NetResolved r \<and> ok r) \<Longrightarrow> \<exists>e. fetch_all nw ks = Inl e"
  by (induction ks) (auto split: net_result.splits sum.splits)

lemma fetch_all_succeeds:
  "\<forall>k \<in> set ks. \<exists>r. nw k = NetResolved r \<and> rtype r \<noteq> Error \<and> ok r \<and> \<not> unstorable r
   \<Longrightarrow> \<exists>rs. fetch_all nw ks = Inr rs"
  by (induction ks) (auto split: net_result.splits sum.splits)

lemma map_of_rev_fetched:
  assumes "\<forall>(k, r) \<in> set rs. nw k = NetResolved r"
    and "k \<in> fst ` set rs" and "nw k = NetResolved r"
  shows "map_of (rev rs) k = Some r"
proof -
  from assms(2) have "k \<in> fst ` set (rev rs)" by simp
  then obtain r' where r': "map_of (rev rs) k = Some r'"
    by (metis domD dom_map_of_conv_image_fst)
  then have "(k, r') \<in> set rs" using map_of_SomeD by fastforce
  with assms(1,3) have "r' = r" by auto
  with r' show ?thesis by simp
qed

section \<open>Install and activate\<close>

text \<open>
  When the network serves every manifest asset and the backend takes the write, the
  installed namespace holds, for every manifest path, the response the network gave.
\<close>

lemma install_names:
  "map fst (storage (install_listener w en cs)) = map fst (caches_open cs (cache_name w))"
  by (auto simp: install_listener_def cache_addAll_def Let_def put_all_names
           split: sum.splits option.splits)

lemma install_precaches:
  assumes put: "put_error en = None"
    and net: "\<forall>p \<in> set urlsToCache. \<exists>r. net en (resolve w p) = NetResolved r
                 \<and> rtype r \<noteq> Error \<and> ok r \<and> \<not> unstorable r"
  shows "\<exists>c. map_of (storage (install_listener w en cs)) (cache_name w) = Some c
           \<and> map fst (storage (install_listener w en cs)) = map fst (caches_open cs (cache_name w))
           \<and> (\<forall>p \<in> set urlsToCache. \<exists>r. net en (resolve w p) = NetResolved r
                                       \<and> map_of c (resolve w p) = Some r)"
proof -
  let ?cn = "cache_name w"
  let ?ks = "map (resolve w) urlsToCache"
  let ?cs1 = "caches_open cs ?cn"
  from net have "\<forall>k \<in> set ?ks. \<exists>r. net en k = NetResolved r
                   \<and> rtype r \<noteq> Error \<and> ok r \<and> \<not> unstorable r"
    by simp
  then obtain rs where rs: "fetch_all (net en) ?ks = Inr rs"
    using fetch_all_succeeds by blast
  then have keys: "map fst rs = ?ks" and got: "\<forall>(k, r) \<in> set rs. net en k = NetResolved r"
    using fetch_all_keys [OF rs] by auto
  have st: "storage (install_listener w en cs) = put_all ?cs1 ?cn rs"
    using rs put by (simp add: install_listener_def cache_addAll_def Let_def)
  obtain c0 where "map_of ?cs1 ?cn = Some c0" using map_of_caches_open by blast
  from map_of_put_all [OF this, of rs] obtain c where
    c: "map_of (put_all ?cs1 ?cn rs) ?cn = Some c"
    and look: "\<And>k. map_of c k = (case map_of (rev rs) k of Some r \<Rightarrow> Some r
                                   | None \<Rightarrow> map_of c0 k)"
    by blast
  have "\<exists>r. net en (resolve w p) = NetResolved r \<and> map_of c (resolve w p) = Some r"
    if "p \<in> set urlsToCache" for p
  proof -
    from that net obtain r where r: "net en (resolve w p) = NetResolved r" by blast
    from that have "resolve w p \<in> set (map fst rs)" by (simp add: keys)
    then have "resolve w p \<in> fst ` set rs" by simp
    from map_of_rev_fetched [OF got this r] have "map_of c (resolve w p) = Some r"
      by (simp add: look)
    with r show ?thesis by blast
  qed
  with c st show ?thesis by (auto simp: put_all_names)
qed

text \<open>The deletions of activate, as a filter on the storage, and the calls it makes.\<close>

lemma delete_stale_storage:
  "fst (delete_stale cn ns cs) = filter (\<lambda>(m, c). m = cn \<or> m \<notin> set ns) cs"
proof (induction ns arbitrary: cs)
  case Nil
  then show ?case by simp
next
  case (Cons n ns)
  have "filter (\<lambda>(m, c). m = cn \<or> m \<notin> set ns) (caches_delete cs n)
          = filter (\<lambda>(m, c). m = cn \<or> m \<notin> set (n # ns)) cs" if "n \<noteq> cn"
    using that unfolding caches_delete_def by (induction cs) auto
  moreover have "filter (\<lambda>(m, c). m = cn \<or> m \<notin> set ns) cs
          = filter (\<lambda>(m, c). m = cn \<or> m \<notin> set (n # ns)) cs" if "n = cn"
    using that by (induction cs) auto
  ultimately show ?case using Cons.IH by (auto simp: split_def)
qed

lemma delete_stale_effects:
  "filter is_cache_call (snd (delete_stale cn ns cs))
     = map CachesDelete (filter (\<lambda>n. n \<noteq> cn) ns)"
  by (induction ns arbitrary: cs) (auto simp: split_def Let_def)

lemma activate_storage:
  "storage (activate_listener w cs) = filter (\<lambda>(m, c). m = cache_name w) cs"
proof -
  have "filter (\<lambda>(m, c). m = cache_name w \<or> m \<notin> set (map fst cs)) cs
          = filter (\<lambda>(m, c). m = cache_name w) cs"
    by (rule filter_cong) (auto simp: rev_image_eqI)
  then show ?thesis
    using delete_stale_storage [of "cache_name w" "caches_keys cs" cs]
    by (simp add: activate_listener_def caches_keys_def split_def)
qed

lemma activate_effects:
  "filter is_cache_call (effects (activate_listener w cs))
     = CachesKeys # map CachesDelete (filter (\<lambda>n. n \<noteq> cache_name w) (caches_keys cs))"
  by (simp add: activate_listener_def split_def Let_def delete_stale_effects)

text \<open>
  Every listener keeps the names of the storage distinct, so a storage that began
  empty has one namespace of each name.
\<close>

lemma install_distinct:
  "distinct (map fst cs) \<Longrightarrow> distinct (map fst (storage (install_listener w en cs)))"
  by (auto simp: install_listener_def cache_addAll_def Let_def put_all_names caches_open_distinct
           split: sum.splits option.splits)

lemma activate_distinct:
  "distinct (map fst cs) \<Longrightarrow> distinct (map fst (storage (activate_listener w cs)))"
  by (simp add: activate_storage distinct_map_filter)

lemma fetch_distinct:
  "distinct (map fst cs) \<Longrightarrow> distinct (map fst (storage (fetch_listener w en cs req)))"
  by (auto simp: fetch_listener_def network_first_def cache_first_def cache_write_def Let_def
        cache_put_result_def cache_put_names caches_open_distinct
      split: net_result.splits option.splits)

text \<open>
  C7. When the fetch of some manifest asset fails during install (the network rejects
  it, or answers with a status that is not ok), \<open>addAll\<close> as a whole fails and stores
  nothing; the listener logs the error, and the promise under \<open>waitUntil\<close> still
  resolves, so the install completes. The namespace has been opened by then and is in
  the storage, with no entry added.
\<close>

theorem install_swallows_precache_failure:
  "p \<in> set urlsToCache \<Longrightarrow> \<not> (\<exists>r. net en (resolve w p) = NetResolved r \<and> ok r)
   \<Longrightarrow> (\<exists>e. cache_addAll en (caches_open cs (cache_name w)) (cache_name w)
               (map (resolve w) urlsToCache) = Inl e
            \<and> effects (install_listener w en cs)
                = [CachesOpen (cache_name w), SkipWaiting, ConsoleLog [LStr ''Opened cache''],
                   CacheAddAll (cache_name w) urlsToCache,
                   ConsoleLog [LStr ''Cache install failed:'', LErr e]])
       \<and> result (install_listener w en cs) = Resolved ()
       \<and> storage (install_listener w en cs) = caches_open cs (cache_name w)
       \<and> cache_name w \<in> set (caches_keys (storage (install_listener w en cs)))"
proof -
  assume p: "p \<in> set urlsToCache"
    and bad: "\<not> (\<exists>r. net en (resolve w p) = NetResolved r \<and> ok r)"
  from p have "resolve w p \<in> set (map (resolve w) urlsToCache)" by simp
  with bad fetch_all_fails [of "resolve w p" "map (resolve w) urlsToCache" "net en"]
  obtain e where "fetch_all (net en) (map (resolve w) urlsToCache) = Inl e" by blast
  then have add: "cache_addAll en (caches_open cs (cache_name w)) (cache_name w)
               (map (resolve w) urlsToCache) = Inl e"
    by (simp add: cache_addAll_def)
  then show ?thesis
    using caches_open_names [of cs "cache_name w"]
    by (simp add: install_listener_def Let_def caches_keys_def)
qed

theorem install_swallows_precache_failure_witness:
  "''/Profile.png'' \<in> set urlsToCache
   \<and> net flaky (resolve sw_v3 ''/Profile.png'') = NetRejected (TypeError ''Failed to fetch'')
   \<and> result (install_listener sw_v3 flaky v2_storage) = Resolved ()
   \<and> storage (install_listener sw_v3 flaky v2_storage) = v2_storage @ [(''portfolio-v3'', [])]"
  using install_swallows_precache_failure [of "''/Profile.png''" flaky sw_v3 v2_storage]
  by (simp add: urlsToCache_def flaky_def resolve_def sw_v3_def caches_open_def v2_storage_def)

text \<open>
  A manifest asset answered with a partial response makes \<open>addAll\<close> fail as an
  unreachable one does: nothing is stored.
\<close>

lemma install_rejects_partial_content:
  "storage (install_listener sw_v3 partial_content v2_storage)
     = v2_storage @ [(''portfolio-v3'', [])]"
  by (simp add: install_listener_def cache_addAll_def caches_open_def Let_def urlsToCache_def
        partial_content_def served_def resolve_def sw_v3_def v2_storage_def ok_def
        unstorable_def site_def)

text \<open>
  C5, as the code has it. Activate leaves in the storage exactly the namespaces named
  after the current version, with their entries, and calls \<open>delete\<close> for each other
  name and for no other. Hence, from a storage with one namespace of each name,
  installing a version and then activating it leaves the namespace of that version as
  the only one, so the namespace of the previous version is absent. The entries of
  the manifest are present in it when the precache succeeded: when the network
  answered every manifest asset with a response \<open>addAll\<close> stores (not of type error,
  ok, not partial, no \<open>Vary: *\<close>) and the backend took the write; then the namespace
  holds, for every manifest path, the response the network gave. The instance below
  installs and activates \<open>portfolio-v3\<close> over the storage \<open>portfolio-v2\<close> left.
\<close>

theorem activate_deletes_exactly_stale:
  "storage (activate_listener w cs) = filter (\<lambda>(n, c). n = cache_name w) cs
   \<and> filter is_cache_call (effects (activate_listener w cs))
       = CachesKeys # map CachesDelete (filter (\<lambda>n. n \<noteq> cache_name w) (caches_keys cs))
   \<and> (distinct (map fst cs)
      \<longrightarrow> (\<exists>c. storage (activate_listener w (storage (install_listener w en cs)))
                  = [(cache_name w, c)]
              \<and> (put_error en = None
                   \<and> (\<forall>p \<in> set urlsToCache. \<exists>r. net en (resolve w p) = NetResolved r
                          \<and> rtype r \<noteq> Error \<and> ok r \<and> \<not> unstorable r)
                 \<longrightarrow> (\<forall>p \<in> set urlsToCache. \<exists>r. net en (resolve w p) = NetResolved r
                                             \<and> map_of c (resolve w p) = Some r))))"
proof (intro conjI impI)
  show "storage (activate_listener w cs) = filter (\<lambda>(n, c). n = cache_name w) cs"
    by (rule activate_storage)
  show "filter is_cache_call (effects (activate_listener w cs))
          = CachesKeys # map CachesDelete (filter (\<lambda>n. n \<noteq> cache_name w) (caches_keys cs))"
    by (rule activate_effects)
next
  assume dist: "distinct (map fst cs)"
  let ?st = "storage (install_listener w en cs)"
  have "cache_name w \<in> set (map fst ?st)"
    using caches_open_names [of cs "cache_name w"] by (simp add: install_names)
  then obtain c where c: "map_of ?st (cache_name w) = Some c"
    by (metis domD dom_map_of_conv_image_fst set_map)
  from dist have "distinct (map fst ?st)" by (simp add: install_distinct)
  from filter_single_name [OF this c]
  have one: "storage (activate_listener w ?st) = [(cache_name w, c)]"
    by (simp add: activate_storage)
  have "\<forall>p \<in> set urlsToCache. \<exists>r. net en (resolve w p) = NetResolved r
                                  \<and> map_of c (resolve w p) = Some r"
    if ok: "put_error en = None
            \<and> (\<forall>p \<in> set urlsToCache. \<exists>r. net en (resolve w p) = NetResolved r
                   \<and> rtype r \<noteq> Error \<and> ok r \<and> \<not> unstorable r)"
  proof -
    from ok install_precaches [of en w cs] obtain c' where
      c': "map_of ?st (cache_name w) = Some c'"
      and look: "\<forall>p \<in> set urlsToCache. \<exists>r. net en (resolve w p) = NetResolved r
                                       \<and> map_of c' (resolve w p) = Some r"
      by blast
    from c c' have "c' = c" by simp
    with look show ?thesis by simp
  qed
  with one show "\<exists>c. storage (activate_listener w ?st) = [(cache_name w, c)]
              \<and> (put_error en = None
                   \<and> (\<forall>p \<in> set urlsToCache. \<exists>r. net en (resolve w p) = NetResolved r
                          \<and> rtype r \<noteq> Error \<and> ok r \<and> \<not> unstorable r)
                 \<longrightarrow> (\<forall>p \<in> set urlsToCache. \<exists>r. net en (resolve w p) = NetResolved r
                                             \<and> map_of c (resolve w p) = Some r))"
    by blast
qed

theorem activate_deletes_exactly_stale_witness:
  "distinct (map fst v2_storage) \<and> put_error online = None
   \<and> rtype (served (site @ ''/index.html'')) \<noteq> Error \<and> ok (served (site @ ''/index.html''))
   \<and> \<not> unstorable (served (site @ ''/index.html''))
   \<and> map fst (storage (activate_listener sw_v3 (storage (install_listener sw_v3 online v2_storage))))
       = [''portfolio-v3'']
   \<and> caches_match
         (storage (activate_listener sw_v3 (storage (install_listener sw_v3 online v2_storage))))
         (site @ ''/index.html'')
       = Some (served (site @ ''/index.html''))
   \<and> map_of (storage (activate_listener sw_v3 (storage (install_listener sw_v3 online v2_storage))))
        ''portfolio-v2'' = None"
proof -
  have d: "distinct (map fst v2_storage)" by (simp add: v2_storage_def)
  have h: "put_error online = None
   \<and> (\<forall>p \<in> set urlsToCache. \<exists>r. net online (resolve sw_v3 p) = NetResolved r
          \<and> rtype r \<noteq> Error \<and> ok r \<and> \<not> unstorable r)"
    by (simp add: online_def served_def ok_def unstorable_def)
  from d activate_deletes_exactly_stale [of sw_v3 v2_storage online] obtain c where
    c: "storage (activate_listener sw_v3 (storage (install_listener sw_v3 online v2_storage)))
             = [(cache_name sw_v3, c)]"
    and look: "put_error online = None
                 \<and> (\<forall>p \<in> set urlsToCache. \<exists>r. net online (resolve sw_v3 p) = NetResolved r
                        \<and> rtype r \<noteq> Error \<and> ok r \<and> \<not> unstorable r)
               \<longrightarrow> (\<forall>p \<in> set urlsToCache. \<exists>r. net online (resolve sw_v3 p) = NetResolved r
                                          \<and> map_of c (resolve sw_v3 p) = Some r)"
    by blast
  have "''/index.html'' \<in> set urlsToCache" by (simp add: urlsToCache_def)
  with look h have "map_of c (site @ ''/index.html'') = Some (served (site @ ''/index.html''))"
    by (fastforce simp: online_def resolve_def sw_v3_def)
  with c d h show ?thesis by (simp add: sw_v3_def served_def ok_def unstorable_def)
qed

text \<open>
  C5, as the claim states it, fails: with one manifest asset unreachable the install of
  \<open>portfolio-v3\<close> still completes, and activating it leaves the \<open>portfolio-v3\<close>
  namespace alone in the storage, with no entry in it.
\<close>

theorem rollover_without_entries_counterexample:
  "result (install_listener sw_v3 flaky v2_storage) = Resolved ()
   \<and> storage (activate_listener sw_v3 (storage (install_listener sw_v3 flaky v2_storage)))
       = [(''portfolio-v3'', [])]
   \<and> caches_match
         (storage (activate_listener sw_v3 (storage (install_listener sw_v3 flaky v2_storage))))
         (site @ ''/index.html'')
       = None"
proof -
  have st: "storage (install_listener sw_v3 flaky v2_storage)
              = v2_storage @ [(''portfolio-v3'', [])]"
    by (simp add: install_listener_def cache_addAll_def caches_open_def Let_def urlsToCache_def
          flaky_def served_def resolve_def sw_v3_def v2_storage_def ok_def unstorable_def
          site_def)
  have "result (install_listener sw_v3 flaky v2_storage) = Resolved ()"
    by (simp add: install_listener_def Let_def split: sum.splits)
  with st show ?thesis
    by (simp add: activate_storage sw_v3_def v2_storage_def)
qed

text \<open>
  C6. Activating twice leaves the storage the first activation left, and the promise
  under \<open>waitUntil\<close> resolves both times. From a storage with one namespace of each
  name in which the current version's namespace exists, what is left is that one
  namespace with its entries, and the second activation calls \<open>delete\<close> for nothing.
\<close>

theorem activate_twice:
  "storage (activate_listener w (storage (activate_listener w cs)))
     = storage (activate_listener w cs)
   \<and> result (activate_listener w cs) = Resolved ()
   \<and> result (activate_listener w (storage (activate_listener w cs))) = Resolved ()
   \<and> (distinct (map fst cs) \<and> map_of cs (cache_name w) = Some c
      \<longrightarrow> storage (activate_listener w (storage (activate_listener w cs))) = [(cache_name w, c)]
          \<and> filter is_cache_call
                (effects (activate_listener w (storage (activate_listener w cs))))
              = [CachesKeys])"
proof (intro conjI impI)
  show "storage (activate_listener w (storage (activate_listener w cs)))
          = storage (activate_listener w cs)"
    by (simp add: activate_storage split_def)
  show "result (activate_listener w cs) = Resolved ()"
    by (simp add: activate_listener_def split_def Let_def)
  show "result (activate_listener w (storage (activate_listener w cs))) = Resolved ()"
    by (simp add: activate_listener_def split_def Let_def)
next
  assume h: "distinct (map fst cs) \<and> map_of cs (cache_name w) = Some c"
  then have one: "storage (activate_listener w cs) = [(cache_name w, c)]"
    by (simp add: activate_storage filter_single_name)
  then show "storage (activate_listener w (storage (activate_listener w cs)))
               = [(cache_name w, c)]"
    by (simp add: activate_storage)
  from one show "filter is_cache_call
                   (effects (activate_listener w (storage (activate_listener w cs))))
                 = [CachesKeys]"
    by (simp add: activate_effects caches_keys_def)
qed

theorem activate_twice_witness:
  "distinct (map fst (v2_storage @ [(''portfolio-v3'', [])]))
   \<and> map_of (v2_storage @ [(''portfolio-v3'', [])]) (cache_name sw_v3) = Some []
   \<and> storage (activate_listener sw_v3 (storage (activate_listener sw_v3
        (v2_storage @ [(''portfolio-v3'', [])])))) = [(''portfolio-v3'', [])]"
proof -
  have h: "distinct (map fst (v2_storage @ [(''portfolio-v3'', [])]))
     \<and> map_of (v2_storage @ [(''portfolio-v3'', [])]) (cache_name sw_v3) = Some []"
    by (simp add: sw_v3_def v2_storage_def)
  with activate_twice [of sw_v3 "v2_storage @ [(''portfolio-v3'', [])]" "[]"]
  have "storage (activate_listener sw_v3 (storage (activate_listener sw_v3
          (v2_storage @ [(''portfolio-v3'', [])])))) = [(cache_name sw_v3, [])]"
    by blast
  with h show ?thesis by (simp add: sw_v3_def)
qed

section \<open>The fetch listener\<close>

text \<open>
  C4. A request whose method is not GET, or whose URL scheme is neither http nor
  https, is passed through untouched: the listener does not call \<open>respondWith\<close>, makes
  no call at all (so it neither reads nor writes the cache), and leaves the cache
  storage as it was.
\<close>

theorem fetch_ignores_non_get_and_non_http:
  "rmethod req \<noteq> ''GET''
     \<or> (protocol (url req) \<noteq> ''http:'' \<and> protocol (url req) \<noteq> ''https:'')
   \<Longrightarrow> fetch_listener w en cs req = \<lparr>result = PassThrough, storage = cs, effects = []\<rparr>"
  by (auto simp: fetch_listener_def isHttp_def)

theorem fetch_ignores_non_get_and_non_http_witness:
  "rmethod form_post \<noteq> ''GET''
   \<and> fetch_listener (sw site) online warm form_post
       = \<lparr>result = PassThrough, storage = warm, effects = []\<rparr>"
  using fetch_ignores_non_get_and_non_http [of form_post "sw site" online warm]
  by (simp add: form_post_def)

text \<open>
  C2. An asset request (a GET request over http or https that is not a document
  request) whose exact match is in the cache gets the cached response; the listener
  makes no network call and no writing call, and the cache storage is unchanged. The
  instance below is the request for \<open>/styles.min.css\<close> with its entry in the cache.
\<close>

theorem asset_hit_served_from_cache:
  "rmethod req = ''GET'' \<Longrightarrow> isHttp req \<Longrightarrow> \<not> isHtml req
   \<Longrightarrow> caches_match cs (href (url req)) = Some r
   \<Longrightarrow> result (fetch_listener w en cs req) = RespondWith (Resolved (Some r))
       \<and> storage (fetch_listener w en cs req) = cs
       \<and> filter is_net_call (effects (fetch_listener w en cs req)) = []
       \<and> filter is_cache_write (effects (fetch_listener w en cs req)) = []"
  by (simp add: fetch_listener_def cache_first_def Let_def)

theorem asset_hit_served_from_cache_witness:
  "rmethod styles_request = ''GET'' \<and> isHttp styles_request \<and> \<not> isHtml styles_request
   \<and> caches_match warm (href (url styles_request)) = Some (stored ''/styles.min.css'')
   \<and> result (fetch_listener (sw site) online warm styles_request)
       = RespondWith (Resolved (Some (stored ''/styles.min.css'')))
   \<and> storage (fetch_listener (sw site) online warm styles_request) = warm
   \<and> filter is_net_call (effects (fetch_listener (sw site) online warm styles_request)) = []"
  using asset_hit_served_from_cache [of styles_request warm "stored ''/styles.min.css''"
      "sw site" online]
  by (simp add: styles_request_def get_request_def isHttp_def isHtml_def warm_def site_def)

text \<open>
  C3. For a document request whose network fetch fails, the listener answers with the
  cached copy of that exact request and, when there is none, with the cached
  \<open>/index.html\<close>. So with \<open>/index.html\<close> in the cache the answer is always a response,
  and it is the cached \<open>/index.html\<close> when the request has no entry of its own. The
  instance below is \<open>/about.html\<close> with the network down.
\<close>

theorem document_offline_fallback:
  "rmethod req = ''GET'' \<Longrightarrow> isHttp req \<Longrightarrow> isHtml req
   \<Longrightarrow> net en (href (url req)) = NetRejected e
   \<Longrightarrow> result (fetch_listener w en cs req)
         = RespondWith (Resolved (case caches_match cs (href (url req)) of
                                    Some r \<Rightarrow> Some r
                                  | None \<Rightarrow> caches_match cs (resolve w ''/index.html'')))
       \<and> storage (fetch_listener w en cs req) = cs
       \<and> (caches_match cs (resolve w ''/index.html'') = Some root
          \<longrightarrow> (\<exists>r. result (fetch_listener w en cs req) = RespondWith (Resolved (Some r)))
              \<and> (caches_match cs (href (url req)) = None
                 \<longrightarrow> result (fetch_listener w en cs req) = RespondWith (Resolved (Some root))))"
  by (auto simp: fetch_listener_def network_first_def Let_def split: option.splits)

theorem document_offline_fallback_witness:
  "rmethod about_request = ''GET'' \<and> isHttp about_request \<and> isHtml about_request
   \<and> net offline (href (url about_request)) = NetRejected (TypeError ''Failed to fetch'')
   \<and> caches_match warm (href (url about_request)) = None
   \<and> caches_match warm (resolve (sw site) ''/index.html'') = Some (stored ''/index.html'')
   \<and> result (fetch_listener (sw site) offline warm about_request)
       = RespondWith (Resolved (Some (stored ''/index.html'')))"
  using document_offline_fallback [of about_request offline "TypeError ''Failed to fetch''"
      "sw site" warm "stored ''/index.html''"]
  by (simp add: about_request_def get_request_def isHttp_def isHtml_def offline_def warm_def
        resolve_def sw_def site_def)






section \<open>The sync, push and message listeners\<close>

text \<open>
  C9. The sync, push and message listeners leave the cache storage as it was and make
  no call that reads or writes it, whatever the event carries.
\<close>

theorem aux_listeners_leave_cache:
  "storage (sync_listener tag cs) = cs
   \<and> filter is_cache_call (effects (sync_listener tag cs)) = []
   \<and> storage (push_listener dat now shown cs) = cs
   \<and> filter is_cache_call (effects (push_listener dat now shown cs)) = []
   \<and> storage (message_listener msg cs) = cs
   \<and> filter is_cache_call (effects (message_listener msg cs)) = []"
  by (simp add: sync_listener_def doBackgroundSync_def push_listener_def message_listener_def
           split: sum.splits)

theorem aux_listeners_leave_cache_witness:
  "storage (sync_listener ''backgroundSync'' warm) = warm
   \<and> filter is_cache_call (effects (sync_listener ''backgroundSync'' warm)) = []
   \<and> storage (push_listener None 0 (Resolved ()) warm) = warm
   \<and> storage (message_listener (Object [(''type'', Str ''SKIP_WAITING'')]) warm) = warm"
  using aux_listeners_leave_cache [of "''backgroundSync''" warm None 0 "Resolved ()"
      "Object [(''type'', Str ''SKIP_WAITING'')]"]
  by simp

text \<open>
  C10. The message listener throws on no payload, \<open>null\<close>, \<open>undefined\<close> and an object
  without a \<open>type\<close> property included, and it calls \<open>skipWaiting\<close>, once, exactly when
  the payload is an object whose \<open>type\<close> property is the string \<open>SKIP_WAITING\<close>.
\<close>

theorem message_listener_total:
  "result (message_listener dat cs) = Inr ()
   \<and> effects (message_listener dat cs)
       = (if \<exists>ps. dat = Object ps \<and> map_of ps ''type'' = Some (Str ''SKIP_WAITING'')
          then [SkipWaiting] else [])"
  by (cases dat) (auto simp: message_listener_def split: option.splits)

theorem message_listener_total_witness:
  "result (message_listener Null []) = Inr () \<and> effects (message_listener Null []) = []
   \<and> result (message_listener Undefined []) = Inr () \<and> effects (message_listener Undefined []) = []
   \<and> result (message_listener (Object [(''kind'', Str ''SKIP_WAITING'')]) []) = Inr ()
   \<and> effects (message_listener (Object [(''kind'', Str ''SKIP_WAITING'')]) []) = []
   \<and> result (message_listener (Object [(''type'', Str ''SKIP_WAITING'')]) []) = Inr ()
   \<and> effects (message_listener (Object [(''type'', Str ''SKIP_WAITING'')]) []) = [SkipWaiting]"
  using message_listener_total [of Null "[]"] message_listener_total [of Undefined "[]"]
    message_listener_total [of "Object [(''kind'', Str ''SKIP_WAITING'')]" "[]"]
    message_listener_total [of "Object [(''type'', Str ''SKIP_WAITING'')]" "[]"]
  by simp

end
